theory Spec2Isabelle
  imports Main
begin

section \<open>Data model\<close>

text \<open>
  The A50 headset manager (\<^verbatim>\<open>a50_headset_manager.py\<close>) watches a headset dock and
  switches the default audio sink and source. Strings are \<^typ>\<open>string\<close>; the text the
  program reads from \<^verbatim>\<open>pactl\<close> is taken to be ASCII.
\<close>

definition HEADSET_SINK :: string where
  "HEADSET_SINK = ''alsa_output.usb-Astro_Gaming_Astro_A50-00.stereo-game''"

definition HEADSET_SOURCE :: string where
  "HEADSET_SOURCE = ''alsa_input.usb-Astro_Gaming_Astro_A50-00.mono-chat''"

text \<open>\<^verbatim>\<open>@dataclass class SinkInfo\<close>: the kind is a string, as in the source.\<close>

record SinkInfo =
  name :: string
  sink_type :: string
  is_available :: bool

text \<open>\<^verbatim>\<open>@dataclass class SourceInfo\<close>.\<close>

record SourceInfo =
  src_name :: string
  source_type :: string

section \<open>Fallback policy\<close>

text \<open>
  A \<^verbatim>\<open>for x in xs: if p(x): return x.name\<close> loop: the first element, in list order, that
  satisfies the test.
\<close>

fun first_match :: "('a \<Rightarrow> bool) \<Rightarrow> 'a list \<Rightarrow> 'a option" where
  "first_match p [] = None"
| "first_match p (x # xs) = (if p x then Some x else first_match p xs)"

text \<open>
  \<^verbatim>\<open>get_best_fallback_sink\<close> (lines 138-168), after the call of
  \<^verbatim>\<open>get_sinks_with_port_availability\<close>, whose result is the argument.
\<close>

definition best_fallback_sink :: "SinkInfo list \<Rightarrow> string option" where
  "best_fallback_sink sinks0 =
     (let sinks = filter (\<lambda>s. name s \<noteq> HEADSET_SINK) sinks0 in
      case first_match (\<lambda>s. sink_type s = ''hdmi'' \<and> is_available s) sinks of
        Some s \<Rightarrow> Some (name s)
      | None \<Rightarrow>
         (case first_match (\<lambda>s. sink_type s = ''analog'') sinks of
            Some s \<Rightarrow> Some (name s)
          | None \<Rightarrow>
             (case first_match (\<lambda>s. is_available s \<and> sink_type s \<noteq> ''usb'') sinks of
                Some s \<Rightarrow> Some (name s)
              | None \<Rightarrow> None)))"

text \<open>
  \<^verbatim>\<open>get_best_fallback_source\<close> (lines 236-266), after the call of \<^verbatim>\<open>get_sources\<close>.
\<close>

definition best_fallback_source :: "SourceInfo list \<Rightarrow> string option" where
  "best_fallback_source sources0 =
     (let sources = filter (\<lambda>s. src_name s \<noteq> HEADSET_SOURCE \<and> source_type s \<noteq> ''monitor'') sources0 in
      case first_match (\<lambda>s. source_type s = ''internal_mic'') sources of
        Some s \<Rightarrow> Some (src_name s)
      | None \<Rightarrow>
         (case first_match (\<lambda>s. source_type s = ''external_mic'') sources of
            Some s \<Rightarrow> Some (src_name s)
          | None \<Rightarrow>
             (case first_match (\<lambda>s. source_type s \<noteq> ''usb'' \<and> source_type s \<noteq> ''monitor'') sources of
                Some s \<Rightarrow> Some (src_name s)
              | None \<Rightarrow> None)))"

section \<open>String operations of the Python library, on ASCII text\<close>

text \<open>\<^verbatim>\<open>str.isspace\<close> on ASCII: the characters \<^verbatim>\<open>str.strip()\<close> removes and \<^verbatim>\<open>\s\<close> matches.\<close>

definition is_space :: "char \<Rightarrow> bool" where
  "is_space c = (c = CHR 0x09 \<or> c = CHR 0x0A \<or> c = CHR 0x0B \<or> c = CHR 0x0C \<or> c = CHR 0x0D
     \<or> c = CHR 0x1C \<or> c = CHR 0x1D \<or> c = CHR 0x1E \<or> c = CHR 0x1F \<or> c = CHR 0x20)"

text \<open>The regular expression class \<^verbatim>\<open>\w\<close> on ASCII: letters, digits and the underscore.\<close>

definition is_word :: "char \<Rightarrow> bool" where
  "is_word c = (let n = (of_char c :: nat) in
     (48 \<le> n \<and> n \<le> 57) \<or> (65 \<le> n \<and> n \<le> 90) \<or> (97 \<le> n \<and> n \<le> 122) \<or> n = 95)"

definition lower_char :: "char \<Rightarrow> char" where
  "lower_char c = (let n = (of_char c :: nat) in
     if 65 \<le> n \<and> n \<le> 90 then char_of (n + 32) else c)"

definition lower :: "string \<Rightarrow> string" where
  "lower s = map lower_char s"

definition strip :: "string \<Rightarrow> string" where
  "strip s = rev (dropWhile is_space (rev (dropWhile is_space s)))"

fun startswith :: "string \<Rightarrow> string \<Rightarrow> bool" where
  "startswith s [] = True"
| "startswith [] (p # ps) = False"
| "startswith (c # cs) (p # ps) = (c = p \<and> startswith cs ps)"

text \<open>\<^verbatim>\<open>sub in s\<close>: \<open>sub\<close> occurs in \<open>s\<close> as a contiguous piece.\<close>

fun contains :: "string \<Rightarrow> string \<Rightarrow> bool" where
  "contains [] sub = (sub = [])"
| "contains (c # cs) sub = (startswith (c # cs) sub \<or> contains cs sub)"

text \<open>\<^verbatim>\<open>s.split(":", 1)[1]\<close> for a string that holds a colon: what follows the first colon.\<close>

definition after_first_colon :: "string \<Rightarrow> string" where
  "after_first_colon s = drop 1 (dropWhile (\<lambda>c. c \<noteq> CHR '':'') s)"

text \<open>
  \<^verbatim>\<open>str.splitlines()\<close> on ASCII: a line ends at LF, CR, CR LF, VT, FF, FS, GS or RS; the
  line ends are dropped and no empty last line is produced.
\<close>

definition is_linebreak :: "char \<Rightarrow> bool" where
  "is_linebreak c = (c = CHR 0x0A \<or> c = CHR 0x0B \<or> c = CHR 0x0C \<or> c = CHR 0x0D
     \<or> c = CHR 0x1C \<or> c = CHR 0x1D \<or> c = CHR 0x1E)"

fun splitlines_from :: "string \<Rightarrow> string \<Rightarrow> string list" where
  "splitlines_from cur [] = (if cur = [] then [] else [rev cur])"
| "splitlines_from cur (c # cs) =
     (if c = CHR 0x0D \<and> startswith cs [CHR 0x0A] then rev cur # splitlines_from [] (drop 1 cs)
      else if is_linebreak c then rev cur # splitlines_from [] cs
      else splitlines_from (c # cur) cs)"

definition splitlines :: "string \<Rightarrow> string list" where
  "splitlines s = splitlines_from [] s"

section \<open>Endpoint classification\<close>

text \<open>\<^verbatim>\<open>classify_sink\<close> (lines 48-62).\<close>

definition classify_sink :: "string \<Rightarrow> string" where
  "classify_sink sink_name =
     (let name_lower = lower sink_name in
      if contains name_lower ''hdmi'' then ''hdmi''
      else if contains name_lower ''analog'' \<or> contains name_lower ''speaker'' then ''analog''
      else if contains name_lower ''usb'' then ''usb''
      else ''other'')"

text \<open>\<^verbatim>\<open>classify_source\<close> (lines 171-197).\<close>

definition classify_source :: "string \<Rightarrow> string" where
  "classify_source source_name =
     (let name_lower = lower source_name in
      if contains name_lower ''.monitor'' then ''monitor''
      else if contains name_lower ''usb'' then ''usb''
      else if contains name_lower ''mic1'' \<or> contains name_lower ''digital'' then ''internal_mic''
      else if contains name_lower ''mic2'' \<or> contains name_lower ''mic'' \<or> contains name_lower ''analog''
        then ''external_mic''
      else ''other'')"

section \<open>Endpoint inspector\<close>

subsection \<open>The two availability patterns\<close>

text \<open>
  \<^verbatim>\<open>re.search(pattern, stripped, re.IGNORECASE)\<close>: the pattern is tried at every position
  of the line. A matcher gets the text that precedes the position, last character first, and the
  text from the position on.
\<close>

fun re_search :: "(string \<Rightarrow> string \<Rightarrow> bool) \<Rightarrow> string \<Rightarrow> string \<Rightarrow> bool" where
  "re_search m pre [] = m pre []"
| "re_search m pre (c # cs) = (m pre (c # cs) \<or> re_search m (c # pre) cs)"

text \<open>A literal under \<^verbatim>\<open>re.IGNORECASE\<close>, at the start of \<open>s\<close>.\<close>

fun ci_startswith :: "string \<Rightarrow> string \<Rightarrow> bool" where
  "ci_startswith s [] = True"
| "ci_startswith [] (p # ps) = False"
| "ci_startswith (c # cs) (p # ps) = (lower_char c = lower_char p \<and> ci_startswith cs ps)"

text \<open>
  \<^verbatim>\<open>\b\<close> next to a word character: the neighbour on the other side is no word character,
  or the line ends there.
\<close>

definition no_word_char_at :: "string \<Rightarrow> bool" where
  "no_word_char_at s = (case s of [] \<Rightarrow> True | c # _ \<Rightarrow> \<not> is_word c)"

text \<open>\<^verbatim>\<open>\bnot available\b\<close>\<close>

definition match_not_available :: "string \<Rightarrow> string \<Rightarrow> bool" where
  "match_not_available pre s =
     (no_word_char_at pre \<and> ci_startswith s ''not available''
      \<and> no_word_char_at (drop 13 s))"

text \<open>\<^verbatim>\<open>\bavailable:\s*WORD\b\<close>, for the words \<^verbatim>\<open>no\<close> and \<^verbatim>\<open>yes\<close>.\<close>

definition match_available_colon :: "string \<Rightarrow> string \<Rightarrow> string \<Rightarrow> bool" where
  "match_available_colon w pre s =
     (no_word_char_at pre \<and> ci_startswith s ''available:''
      \<and> (let r = dropWhile is_space (drop 10 s) in
           ci_startswith r w \<and> no_word_char_at (drop (length w) r)))"

text \<open>\<^verbatim>\<open>(?<!\bnot )\bavailable\)\<close>\<close>

definition match_available_paren :: "string \<Rightarrow> string \<Rightarrow> bool" where
  "match_available_paren pre s =
     (\<not> (ci_startswith pre '' ton'' \<and> no_word_char_at (drop 4 pre))
      \<and> no_word_char_at pre \<and> ci_startswith s ''available)'')"

text \<open>Line 127: \<^verbatim>\<open>\bnot available\b|\bavailable:\s*no\b\<close>.\<close>

definition search_unavailable :: "string \<Rightarrow> bool" where
  "search_unavailable stripped =
     re_search (\<lambda>b s. match_not_available b s \<or> match_available_colon ''no'' b s) [] stripped"

text \<open>Line 129: \<^verbatim>\<open>(?<!\bnot )\bavailable\)|\bavailable:\s*yes\b\<close>.\<close>

definition search_available :: "string \<Rightarrow> bool" where
  "search_available stripped =
     re_search (\<lambda>b s. match_available_paren b s \<or> match_available_colon ''yes'' b s) [] stripped"

text \<open>
  Lines 127-130: what a port line adds to \<^verbatim>\<open>port_availabilities\<close>: \<open>Some False\<close>,
  \<open>Some True\<close>, or nothing.
\<close>

definition port_availability :: "string \<Rightarrow> bool option" where
  "port_availability stripped =
     (if search_unavailable stripped then Some False
      else if search_available stripped then Some True
      else None)"

subsection \<open>Sinks\<close>

record sink_parser =
  sinks :: "SinkInfo list"
  current_name :: "string option"
  port_availabilities :: "bool list"
  in_ports_section :: bool

definition sink_parser_init :: sink_parser where
  "sink_parser_init =
     \<lparr>sinks = [], current_name = None, port_availabilities = [], in_ports_section = False\<rparr>"

text \<open>
  \<^verbatim>\<open>save_current_sink\<close> (lines 85-96): the list of sinks after the call. \<^verbatim>\<open>if current_name:\<close>
  fails for \<^verbatim>\<open>None\<close> and for the empty string.
\<close>

definition save_current_sink :: "sink_parser \<Rightarrow> SinkInfo list" where
  "save_current_sink st =
     (case current_name st of
        None \<Rightarrow> sinks st
      | Some n \<Rightarrow>
          if n = [] then sinks st
          else
            (let t = classify_sink n;
                 a = (if t = ''hdmi'' then list_ex (\<lambda>b. b) (port_availabilities st) else True)
             in sinks st @ [\<lparr>name = n, sink_type = t, is_available = a\<rparr>]))"

text \<open>The body of the loop over the lines (lines 98-130).\<close>

definition sink_line :: "sink_parser \<Rightarrow> string \<Rightarrow> sink_parser" where
  "sink_line st line =
     (let stripped = strip line in
      if startswith stripped ''Sink #'' then
        \<lparr>sinks = save_current_sink st, current_name = None, port_availabilities = [],
         in_ports_section = False\<rparr>
      else if startswith stripped ''Name:'' then
        st\<lparr>current_name := Some (strip (after_first_colon stripped))\<rparr>
      else if startswith stripped ''Ports:'' then
        st\<lparr>in_ports_section := True\<rparr>
      else if in_ports_section st \<and> \<not> startswith line [CHR 0x09, CHR 0x09]
              \<and> startswith line [CHR 0x09] then
        (if \<not> startswith stripped ''Port:'' \<and> contains stripped '':''
         then st\<lparr>in_ports_section := False\<rparr> else st)
      else if in_ports_section st \<and> contains (lower stripped) ''available'' then
        (case port_availability stripped of
           Some b \<Rightarrow> st\<lparr>port_availabilities := port_availabilities st @ [b]\<rparr>
         | None \<Rightarrow> st)
      else st)"

text \<open>
  \<^verbatim>\<open>get_sinks_with_port_availability\<close> (lines 65-135); the argument is the standard output
  of \<^verbatim>\<open>pactl list sinks\<close>.
\<close>

definition parse_sink_lines :: "string list \<Rightarrow> SinkInfo list" where
  "parse_sink_lines ls = save_current_sink (foldl sink_line sink_parser_init ls)"

definition get_sinks_with_port_availability :: "string \<Rightarrow> SinkInfo list" where
  "get_sinks_with_port_availability stdout = parse_sink_lines (splitlines stdout)"

definition get_best_fallback_sink :: "string \<Rightarrow> string option" where
  "get_best_fallback_sink stdout = best_fallback_sink (get_sinks_with_port_availability stdout)"

subsection \<open>Sources\<close>

record source_parser =
  sources :: "SourceInfo list"
  current_source :: "string option"

definition save_current_source :: "source_parser \<Rightarrow> SourceInfo list" where
  "save_current_source st =
     (case current_source st of
        None \<Rightarrow> sources st
      | Some n \<Rightarrow>
          if n = [] then sources st
          else sources st @ [\<lparr>src_name = n, source_type = classify_source n\<rparr>])"

definition source_line :: "source_parser \<Rightarrow> string \<Rightarrow> source_parser" where
  "source_line st line =
     (let stripped = strip line in
      if startswith stripped ''Source #'' then
        \<lparr>sources = save_current_source st, current_source = None\<rparr>
      else if startswith stripped ''Name:'' then
        st\<lparr>current_source := Some (strip (after_first_colon stripped))\<rparr>
      else st)"

text \<open>
  \<^verbatim>\<open>get_sources\<close> (lines 200-233); the argument is the standard output of
  \<^verbatim>\<open>pactl list sources\<close>.
\<close>

definition get_sources :: "string \<Rightarrow> SourceInfo list" where
  "get_sources stdout =
     save_current_source (foldl source_line \<lparr>sources = [], current_source = None\<rparr> (splitlines stdout))"

definition get_best_fallback_source :: "string \<Rightarrow> string option" where
  "get_best_fallback_source stdout = best_fallback_source (get_sources stdout)"

section \<open>Routing controller\<close>

text \<open>
  Modelled from the spec: \<^verbatim>\<open>HeadsetStatus\<close> is a class of the package \<^verbatim>\<open>eh_fifty\<close>, which is
  not part of the repository; the spec gives it as \<^verbatim>\<open>{is_on: bool, is_docked: bool}\<close>, compared
  by value.
\<close>

record HeadsetStatus =
  is_on :: bool
  is_docked :: bool

text \<open>
  The exceptions the transport raises, as the handlers of the program tell them apart:
  \<^verbatim>\<open>DeviceNotConnected\<close>, \<^verbatim>\<open>USBError\<close>, and any other \<^verbatim>\<open>Exception\<close>.
\<close>

datatype link_error = DeviceNotConnected | USBError | OtherException

datatype Device = DeviceHandle

text \<open>
  What one iteration of the loop of \<^verbatim>\<open>main\<close> gets from outside: the outcome of
  \<^verbatim>\<open>Device()\<close> and of the probe in \<^verbatim>\<open>try_connect_device\<close>, the outcome of
  \<^verbatim>\<open>device.get_headset_status()\<close> in the loop, and the output of the two \<^verbatim>\<open>pactl\<close> calls.
\<close>

record world =
  device_open :: "link_error option"
  device_probe :: "link_error option"
  device_status :: "link_error + HeadsetStatus"
  pactl_sinks :: string
  pactl_sources :: string

text \<open>
  What the controller does to the outside, in order: the \<^verbatim>\<open>pactl\<close> queries, the calls of
  \<^verbatim>\<open>set_default_sink\<close> and \<^verbatim>\<open>set_default_source\<close> with their argument, \<^verbatim>\<open>device.close()\<close>
  and \<^verbatim>\<open>time.sleep\<close>. Console output is not recorded.
\<close>

datatype event =
    PactlListSinks
  | PactlListSources
  | SetDefaultSink string
  | SetDefaultSource string
  | DeviceClose
  | Sleep int

text \<open>The local variables of \<^verbatim>\<open>main\<close> (lines 374-385).\<close>

record controller =
  device :: "Device option"
  last_status :: "HeadsetStatus option"
  last_fallback_sink :: "string option"
  last_fallback_source :: "string option"
  backoff_seconds :: int
  poll_counter :: int

definition max_backoff :: int where
  "max_backoff = 30"

definition fallback_check_interval :: int where
  "fallback_check_interval = 10"

definition controller_init :: controller where
  "controller_init =
     \<lparr>device = None, last_status = None, last_fallback_sink = None,
      last_fallback_source = None, backoff_seconds = 2, poll_counter = 0\<rparr>"

text \<open>\<^verbatim>\<open>if x:\<close> for an optional string: neither \<^verbatim>\<open>None\<close> nor empty.\<close>

definition truthy :: "string option \<Rightarrow> bool" where
  "truthy x = (case x of None \<Rightarrow> False | Some s \<Rightarrow> s \<noteq> [])"

text \<open>
  \<^verbatim>\<open>try_connect_device\<close> (lines 302-340): the device or \<^verbatim>\<open>None\<close>, and the \<^verbatim>\<open>close\<close> calls
  made on the way.
\<close>

definition try_connect_device :: "world \<Rightarrow> Device option \<times> event list" where
  "try_connect_device w =
     (case device_open w of
        Some e \<Rightarrow> (None, [])
      | None \<Rightarrow>
          (case device_probe w of
             None \<Rightarrow> (Some DeviceHandle, [])
           | Some DeviceNotConnected \<Rightarrow> (None, [])
           | Some USBError \<Rightarrow> (None, [DeviceClose])
           | Some OtherException \<Rightarrow> (None, [DeviceClose])))"

text \<open>\<^verbatim>\<open>switch_to_fallback\<close> (lines 387-409).\<close>

definition switch_to_fallback :: "world \<Rightarrow> controller \<Rightarrow> controller \<times> event list" where
  "switch_to_fallback w st =
     (let fallback_sink = get_best_fallback_sink (pactl_sinks w);
          (st1, ev1) =
            (if truthy fallback_sink
             then (st\<lparr>last_fallback_sink := fallback_sink\<rparr>, [SetDefaultSink (the fallback_sink)])
             else (st\<lparr>last_fallback_sink := None\<rparr>, []));
          fallback_source = get_best_fallback_source (pactl_sources w);
          (st2, ev2) =
            (if truthy fallback_source
             then (st1\<lparr>last_fallback_source := fallback_source\<rparr>,
                   [SetDefaultSource (the fallback_source)])
             else (st1\<lparr>last_fallback_source := None\<rparr>, []))
      in (st2, [PactlListSinks] @ ev1 @ [PactlListSources] @ ev2))"

text \<open>
  The block \<^verbatim>\<open>if device is None:\<close> (lines 414-426). The iteration goes on to the poll when
  the device is set afterwards, and ends (\<^verbatim>\<open>continue\<close>) when it is not.
\<close>

definition connect_step :: "world \<Rightarrow> controller \<Rightarrow> controller \<times> event list" where
  "connect_step w st =
     (if device st = None then
        (case try_connect_device w of
           (Some d, ev) \<Rightarrow>
             (st\<lparr>device := Some d, backoff_seconds := 2, last_status := None\<rparr>, ev)
         | (None, ev) \<Rightarrow>
             (st\<lparr>backoff_seconds := min (backoff_seconds st * 2) max_backoff\<rparr>,
              ev @ [Sleep (backoff_seconds st)]))
      else (st, []))"

text \<open>The periodic re-evaluation (lines 487-510).\<close>

definition periodic_check :: "world \<Rightarrow> controller \<Rightarrow> controller \<times> event list" where
  "periodic_check w st0 =
     (let st = st0\<lparr>poll_counter := 0\<rparr>;
          fallback_sink = get_best_fallback_sink (pactl_sinks w);
          fallback_source = get_best_fallback_source (pactl_sources w);
          (st1, ev1) =
            (if fallback_sink \<noteq> last_fallback_sink st then
               (if truthy fallback_sink
                then (st\<lparr>last_fallback_sink := fallback_sink\<rparr>,
                      [SetDefaultSink (the fallback_sink)])
                else (st\<lparr>last_fallback_sink := None\<rparr>, []))
             else (st, []));
          (st2, ev2) =
            (if fallback_source \<noteq> last_fallback_source st1 then
               (if truthy fallback_source
                then (st1\<lparr>last_fallback_source := fallback_source\<rparr>,
                      [SetDefaultSource (the fallback_source)])
                else (st1\<lparr>last_fallback_source := None\<rparr>, []))
             else (st1, []))
      in (st2, [PactlListSinks, PactlListSources] @ ev1 @ ev2))"

text \<open>The handling of a status that was read (lines 461-510).\<close>

definition status_step :: "world \<Rightarrow> controller \<Rightarrow> HeadsetStatus \<Rightarrow> controller \<times> event list" where
  "status_step w st0 status =
     (let st = st0\<lparr>poll_counter := poll_counter st0 + 1\<rparr> in
      if Some status \<noteq> last_status st then
        (let (st1, ev) =
               (if is_on status \<and> \<not> is_docked status then
                  (st\<lparr>last_fallback_sink := None, last_fallback_source := None\<rparr>,
                   [SetDefaultSink HEADSET_SINK, SetDefaultSource HEADSET_SOURCE])
                else if is_docked status then switch_to_fallback w st
                else (st, []))
         in (st1\<lparr>last_status := Some status, poll_counter := 0\<rparr>, ev))
      else if is_docked status \<and> poll_counter st \<ge> fallback_check_interval then
        periodic_check w st
      else (st, []))"

text \<open>
  The rest of the iteration, with a device (lines 430-512): the poll, its two handlers,
  the handling of the status and the sleep of one second.
\<close>

definition poll_step :: "world \<Rightarrow> controller \<Rightarrow> controller \<times> event list" where
  "poll_step w st =
     (case device_status w of
        Inl e \<Rightarrow>
          (if e = USBError \<or> e = DeviceNotConnected then
             (let (st1, ev) = switch_to_fallback w (st\<lparr>device := None, last_status := None\<rparr>)
              in (st1, [DeviceClose] @ ev @ [Sleep (backoff_seconds st)]))
           else
             (st\<lparr>device := None, last_status := None\<rparr>, [DeviceClose, Sleep (backoff_seconds st)]))
      | Inr status \<Rightarrow>
          (let (st1, ev) = status_step w st status in (st1, ev @ [Sleep 1])))"

text \<open>One iteration of \<^verbatim>\<open>while True:\<close> (lines 411-512).\<close>

definition main_iteration :: "world \<Rightarrow> controller \<Rightarrow> controller \<times> event list" where
  "main_iteration w st =
     (let (st1, ev1) = connect_step w st in
      if device st1 = None then (st1, ev1)
      else (let (st2, ev2) = poll_step w st1 in (st2, ev1 @ ev2)))"

text \<open>
  The loop never ends by itself; \<open>main_run\<close> is the state after the iterations that a finite
  list of worlds feeds, with the events of all of them, from any state.
\<close>

fun main_run :: "world list \<Rightarrow> controller \<Rightarrow> controller \<times> event list" where
  "main_run [] st = (st, [])"
| "main_run (w # ws) st =
     (let (st1, ev1) = main_iteration w st;
          (st2, ev2) = main_run ws st1
      in (st2, ev1 @ ev2))"

section \<open>The fallback policy in the words of the specification\<close>

text \<open>
  The two selections as the specification states them, for comparison with the code:
  the excluded name is removed, then the first rule that some candidate matches decides,
  and within a rule the first candidate in enumeration order wins. The third sink rule is
  about sinks other than those of the first two rules.
\<close>

definition best_fallback_sink_spec :: "SinkInfo list \<Rightarrow> string \<Rightarrow> string option" where
  "best_fallback_sink_spec ss exclude =
     (let cands = filter (\<lambda>s. name s \<noteq> exclude) ss in
      if \<exists>s \<in> set cands. sink_type s = ''hdmi'' \<and> is_available s
      then map_option name (List.find (\<lambda>s. sink_type s = ''hdmi'' \<and> is_available s) cands)
      else if \<exists>s \<in> set cands. sink_type s = ''analog''
      then map_option name (List.find (\<lambda>s. sink_type s = ''analog'') cands)
      else map_option name
             (List.find (\<lambda>s. sink_type s \<noteq> ''hdmi'' \<and> sink_type s \<noteq> ''analog''
                              \<and> is_available s \<and> sink_type s \<noteq> ''usb'') cands))"

definition best_fallback_source_spec :: "SourceInfo list \<Rightarrow> string \<Rightarrow> string option" where
  "best_fallback_source_spec ss exclude =
     (let cands = filter (\<lambda>s. src_name s \<noteq> exclude \<and> source_type s \<noteq> ''monitor'') ss in
      if \<exists>s \<in> set cands. source_type s = ''internal_mic''
      then map_option src_name (List.find (\<lambda>s. source_type s = ''internal_mic'') cands)
      else if \<exists>s \<in> set cands. source_type s = ''external_mic''
      then map_option src_name (List.find (\<lambda>s. source_type s = ''external_mic'') cands)
      else map_option src_name
             (List.find (\<lambda>s. source_type s \<noteq> ''usb'' \<and> source_type s \<noteq> ''monitor'') cands))"

section \<open>Vocabulary of the statements\<close>

text \<open>The call of \<^verbatim>\<open>set_default_sink\<close> or \<^verbatim>\<open>set_default_source\<close> for a computed fallback, if any.\<close>

definition sink_call :: "string option \<Rightarrow> event list" where
  "sink_call x = (case x of None \<Rightarrow> [] | Some n \<Rightarrow> [SetDefaultSink n])"

definition source_call :: "string option \<Rightarrow> event list" where
  "source_call x = (case x of None \<Rightarrow> [] | Some n \<Rightarrow> [SetDefaultSource n])"



subsection \<open>Example inputs\<close>

text \<open>
  Output of \<^verbatim>\<open>pactl list sinks\<close> with an HDMI sink whose only port is not available and an
  analog sink, and output of \<^verbatim>\<open>pactl list sources\<close> with a monitor source and an internal
  microphone.
\<close>

definition example_pactl_sinks :: string where
  "example_pactl_sinks =
     ''Sink #0\<newline>'' @
     CHR 0x09 # ''State: SUSPENDED\<newline>'' @
     CHR 0x09 # ''Name: alsa_output.pci.hdmi-stereo\<newline>'' @
     CHR 0x09 # ''Ports:\<newline>'' @
     CHR 0x09 # CHR 0x09 # ''hdmi-output-0: HDMI (type: HDMI, priority: 5900, not available)\<newline>'' @
     CHR 0x09 # ''Active Port: hdmi-output-0\<newline>'' @
     ''Sink #1\<newline>'' @
     CHR 0x09 # ''State: RUNNING\<newline>'' @
     CHR 0x09 # ''Name: alsa_output.pci.analog-stereo\<newline>'' @
     CHR 0x09 # ''Ports:\<newline>'' @
     CHR 0x09 # CHR 0x09 # ''analog-output-speaker: Speakers (type: Speaker, priority: 10000, available)\<newline>''"

definition example_pactl_sources :: string where
  "example_pactl_sources =
     ''Source #0\<newline>'' @
     CHR 0x09 # ''Name: alsa_output.pci.analog-stereo.monitor\<newline>'' @
     ''Source #1\<newline>'' @
     CHR 0x09 # ''Name: alsa_input.pci.HiFi__Mic1__source\<newline>''"

text \<open>Worlds: the dock answers with a status, or the dock is gone, or the poll fails oddly.\<close>

definition world_with_status :: "HeadsetStatus \<Rightarrow> world" where
  "world_with_status s =
     \<lparr>device_open = None, device_probe = None, device_status = Inr s,
      pactl_sinks = example_pactl_sinks, pactl_sources = example_pactl_sources\<rparr>"

definition status_docked :: HeadsetStatus where
  "status_docked = \<lparr>is_on = False, is_docked = True\<rparr>"

definition status_active :: HeadsetStatus where
  "status_active = \<lparr>is_on = True, is_docked = False\<rparr>"

definition status_off :: HeadsetStatus where
  "status_off = \<lparr>is_on = False, is_docked = False\<rparr>"

definition world_unplugged :: world where
  "world_unplugged =
     \<lparr>device_open = Some DeviceNotConnected, device_probe = None,
      device_status = Inl DeviceNotConnected,
      pactl_sinks = example_pactl_sinks, pactl_sources = example_pactl_sources\<rparr>"


text \<open>A controller with an open link that last saw the headset active.\<close>

definition controller_active :: controller where
  "controller_active =
     \<lparr>device = Some DeviceHandle, last_status = Some status_active, last_fallback_sink = None,
      last_fallback_source = None, backoff_seconds = 2, poll_counter = 3\<rparr>"

section \<open>Properties of the fallback policy\<close>

lemma first_match_find: "first_match p xs = List.find p xs"
  by (induction xs) auto

lemma find_None_set: "List.find p xs = None \<longleftrightarrow> (\<forall>x \<in> set xs. \<not> p x)"
  by (induction xs) auto

lemma find_Some_set: "List.find p xs = Some x \<Longrightarrow> x \<in> set xs \<and> p x"
  by (induction xs) (auto split: if_splits)

lemma find_agree: "(\<forall>x \<in> set xs. p x = q x) \<Longrightarrow> List.find p xs = List.find q xs"
  by (induction xs) auto

text \<open>
  Claim C4. For every list of sinks, \<open>best_fallback_sink\<close> removes the headset's own sink
  and returns the first sink, in enumeration order, of the first rule that matches:
  (1) hdmi and available, (2) analog, whatever its availability flag, (3) any other sink
  that is available and not usb. It returns \<open>None\<close> exactly when no remaining sink matches
  a rule, and it never returns the headset's sink name.
\<close>

theorem best_fallback_sink_priority:
  "best_fallback_sink ss = best_fallback_sink_spec ss HEADSET_SINK
   \<and> best_fallback_sink ss \<noteq> Some HEADSET_SINK
   \<and> (best_fallback_sink ss = None \<longleftrightarrow>
        (\<forall>s \<in> set ss. name s = HEADSET_SINK
            \<or> \<not> (sink_type s = ''hdmi'' \<and> is_available s) \<and> sink_type s \<noteq> ''analog''
              \<and> \<not> (is_available s \<and> sink_type s \<noteq> ''usb'')))"
proof -
  define cands where "cands = filter (\<lambda>s. name s \<noteq> HEADSET_SINK) ss"
  let ?r1 = "\<lambda>s. sink_type s = ''hdmi'' \<and> is_available s"
  let ?r2 = "\<lambda>s. sink_type s = ''analog''"
  let ?r3 = "\<lambda>s. is_available s \<and> sink_type s \<noteq> ''usb''"
  let ?r3' = "\<lambda>s. sink_type s \<noteq> ''hdmi'' \<and> sink_type s \<noteq> ''analog''
                    \<and> is_available s \<and> sink_type s \<noteq> ''usb''"
  have code: "best_fallback_sink ss =
      (case List.find ?r1 cands of Some s \<Rightarrow> Some (name s)
       | None \<Rightarrow> (case List.find ?r2 cands of Some s \<Rightarrow> Some (name s)
         | None \<Rightarrow> (case List.find ?r3 cands of Some s \<Rightarrow> Some (name s) | None \<Rightarrow> None)))"
    unfolding best_fallback_sink_def cands_def first_match_find Let_def by (rule refl)
  have r3: "List.find ?r3 cands = List.find ?r3' cands"
    if "List.find ?r1 cands = None" "List.find ?r2 cands = None"
    using that by (intro find_agree) (auto simp: find_None_set)
  have refine: "best_fallback_sink ss = best_fallback_sink_spec ss HEADSET_SINK"
  proof (cases "List.find ?r1 cands")
    case (Some s)
    then have "\<exists>s \<in> set cands. ?r1 s" using find_Some_set by fastforce
    then show ?thesis
      using Some by (simp add: code best_fallback_sink_spec_def cands_def [symmetric])
  next
    case n1: None
    then have no1: "\<not> (\<exists>s \<in> set cands. ?r1 s)" by (simp add: find_None_set)
    show ?thesis
    proof (cases "List.find ?r2 cands")
      case (Some s)
      then have "\<exists>s \<in> set cands. ?r2 s" using find_Some_set by fastforce
      then show ?thesis
        using Some n1 no1 by (simp add: code best_fallback_sink_spec_def cands_def [symmetric])
    next
      case n2: None
      then have no2: "\<not> (\<exists>s \<in> set cands. ?r2 s)" by (simp add: find_None_set)
      show ?thesis
        using n1 n2 no1 no2 r3 [OF n1 n2]
        by (simp add: code best_fallback_sink_spec_def cands_def [symmetric]
              split: option.splits)
    qed
  qed
  have in_cands: "\<And>p s. List.find p cands = Some s \<Longrightarrow> name s \<noteq> HEADSET_SINK"
    using find_Some_set by (fastforce simp: cands_def)
  have never: "best_fallback_sink ss \<noteq> Some HEADSET_SINK"
    unfolding code using in_cands by (auto split: option.splits)
  have none: "best_fallback_sink ss = None \<longleftrightarrow>
        (\<forall>s \<in> set ss. name s = HEADSET_SINK
            \<or> \<not> ?r1 s \<and> sink_type s \<noteq> ''analog'' \<and> \<not> ?r3 s)"
  proof -
    have "best_fallback_sink ss = None \<longleftrightarrow>
        List.find ?r1 cands = None \<and> List.find ?r2 cands = None \<and> List.find ?r3 cands = None"
      unfolding code by (simp split: option.splits)
    also have "\<dots> \<longleftrightarrow> (\<forall>s \<in> set cands. \<not> ?r1 s \<and> \<not> ?r2 s \<and> \<not> ?r3 s)"
      unfolding find_None_set by blast
    also have "\<dots> \<longleftrightarrow> (\<forall>s \<in> set ss. name s = HEADSET_SINK
            \<or> \<not> ?r1 s \<and> sink_type s \<noteq> ''analog'' \<and> \<not> ?r3 s)"
      unfolding cands_def by auto
    finally show ?thesis .
  qed
  show ?thesis using refine never none by blast
qed

text \<open>
  An unavailable hdmi sink, the headset's own sink and an analog sink: the analog sink is
  chosen, by the code and by the specification's wording alike.
\<close>

theorem best_fallback_sink_priority_witness:
  "best_fallback_sink
     [\<lparr>name = ''alsa_output.pci.hdmi-stereo'', sink_type = ''hdmi'', is_available = False\<rparr>,
      \<lparr>name = HEADSET_SINK, sink_type = ''usb'', is_available = True\<rparr>,
      \<lparr>name = ''alsa_output.pci.analog-stereo'', sink_type = ''analog'', is_available = True\<rparr>]
     = Some ''alsa_output.pci.analog-stereo''
   \<and> best_fallback_sink_spec
     [\<lparr>name = ''alsa_output.pci.hdmi-stereo'', sink_type = ''hdmi'', is_available = False\<rparr>,
      \<lparr>name = HEADSET_SINK, sink_type = ''usb'', is_available = True\<rparr>,
      \<lparr>name = ''alsa_output.pci.analog-stereo'', sink_type = ''analog'', is_available = True\<rparr>]
     HEADSET_SINK = Some ''alsa_output.pci.analog-stereo''"
proof -
  let ?xs = "[\<lparr>name = ''alsa_output.pci.hdmi-stereo'', sink_type = ''hdmi'', is_available = False\<rparr>,
      \<lparr>name = HEADSET_SINK, sink_type = ''usb'', is_available = True\<rparr>,
      \<lparr>name = ''alsa_output.pci.analog-stereo'', sink_type = ''analog'', is_available = True\<rparr>]"
  have a: "best_fallback_sink ?xs = Some ''alsa_output.pci.analog-stereo''"
    by (simp add: best_fallback_sink_def HEADSET_SINK_def)
  have "best_fallback_sink ?xs = best_fallback_sink_spec ?xs HEADSET_SINK"
    using best_fallback_sink_priority [of ?xs] by (rule conjunct1)
  with a show ?thesis by simp
qed

text \<open>Every source that \<open>get_sources\<close> emits is classified by its own, non-empty name.\<close>

lemma save_current_source_classified:
  "\<forall>s \<in> set (sources st). source_type s = classify_source (src_name s) \<and> src_name s \<noteq> [] \<Longrightarrow>
   \<forall>s \<in> set (save_current_source st). source_type s = classify_source (src_name s) \<and> src_name s \<noteq> []"
  by (auto simp: save_current_source_def split: option.splits)

lemma source_line_classified:
  "\<forall>s \<in> set (sources st). source_type s = classify_source (src_name s) \<and> src_name s \<noteq> [] \<Longrightarrow>
   \<forall>s \<in> set (sources (source_line st l)). source_type s = classify_source (src_name s) \<and> src_name s \<noteq> []"
  using save_current_source_classified [of st]
  by (simp add: source_line_def Let_def)

lemma foldl_source_line_classified:
  "\<forall>s \<in> set (sources st). source_type s = classify_source (src_name s) \<and> src_name s \<noteq> [] \<Longrightarrow>
   \<forall>s \<in> set (sources (foldl source_line st ls)). source_type s = classify_source (src_name s) \<and> src_name s \<noteq> []"
proof (induction ls arbitrary: st)
  case Nil
  then show ?case by simp
next
  case (Cons l ls)
  show ?case
    unfolding foldl_Cons by (rule Cons.IH) (rule source_line_classified [OF Cons.prems])
qed

lemma get_sources_classified:
  "\<forall>s \<in> set (get_sources out). source_type s = classify_source (src_name s) \<and> src_name s \<noteq> []"
  unfolding get_sources_def
  by (rule save_current_source_classified, rule foldl_source_line_classified) simp

lemma best_fallback_source_Some:
  assumes "best_fallback_source ss = Some n"
  shows "\<exists>s \<in> set ss. src_name s = n \<and> n \<noteq> HEADSET_SOURCE \<and> source_type s \<noteq> ''monitor''"
proof -
  define cands where
    "cands = filter (\<lambda>s. src_name s \<noteq> HEADSET_SOURCE \<and> source_type s \<noteq> ''monitor'') ss"
  have "\<exists>p s. List.find p cands = Some s \<and> src_name s = n"
    using assms unfolding best_fallback_source_def cands_def first_match_find Let_def
    by (auto split: option.splits)
  then obtain p s where "List.find p cands = Some s" "src_name s = n" by blast
  then have "s \<in> set cands" "src_name s = n" using find_Some_set by fastforce+
  then show ?thesis by (auto simp: cands_def)
qed

text \<open>
  Claim C5. For every list of sources, \<open>best_fallback_source\<close> removes the headset's own
  source and every monitor source, then returns the first internal_mic, else the first
  external_mic, else the first remaining source that is neither usb nor monitor, else
  \<open>None\<close>. The name it returns is never the headset's and belongs to a source that is not
  of kind monitor; on the parsed output of \<^verbatim>\<open>pactl\<close> the name itself does not classify as
  monitor.
\<close>

theorem best_fallback_source_priority:
  "best_fallback_source ss = best_fallback_source_spec ss HEADSET_SOURCE
   \<and> best_fallback_source ss \<noteq> Some HEADSET_SOURCE
   \<and> (\<forall>n. best_fallback_source ss = Some n \<longrightarrow>
         (\<exists>s \<in> set ss. src_name s = n \<and> source_type s \<noteq> ''monitor''))
   \<and> (best_fallback_source ss = None \<longleftrightarrow>
        (\<forall>s \<in> set ss. src_name s = HEADSET_SOURCE \<or> source_type s = ''monitor''
            \<or> source_type s = ''usb''))
   \<and> (\<forall>n. get_best_fallback_source out = Some n \<longrightarrow>
         n \<noteq> HEADSET_SOURCE \<and> classify_source n \<noteq> ''monitor'')"
proof -
  define cands where
    "cands = filter (\<lambda>s. src_name s \<noteq> HEADSET_SOURCE \<and> source_type s \<noteq> ''monitor'') ss"
  let ?r1 = "\<lambda>s. source_type s = ''internal_mic''"
  let ?r2 = "\<lambda>s. source_type s = ''external_mic''"
  let ?r3 = "\<lambda>s. source_type s \<noteq> ''usb'' \<and> source_type s \<noteq> ''monitor''"
  have code: "best_fallback_source ss =
      (case List.find ?r1 cands of Some s \<Rightarrow> Some (src_name s)
       | None \<Rightarrow> (case List.find ?r2 cands of Some s \<Rightarrow> Some (src_name s)
         | None \<Rightarrow> (case List.find ?r3 cands of Some s \<Rightarrow> Some (src_name s) | None \<Rightarrow> None)))"
    unfolding best_fallback_source_def cands_def first_match_find Let_def by (rule refl)
  have refine: "best_fallback_source ss = best_fallback_source_spec ss HEADSET_SOURCE"
  proof (cases "List.find ?r1 cands")
    case (Some s)
    then have "\<exists>s \<in> set cands. ?r1 s" using find_Some_set by fastforce
    then show ?thesis
      using Some by (simp add: code best_fallback_source_spec_def cands_def [symmetric])
  next
    case n1: None
    then have no1: "\<not> (\<exists>s \<in> set cands. ?r1 s)" by (simp add: find_None_set)
    show ?thesis
    proof (cases "List.find ?r2 cands")
      case (Some s)
      then have "\<exists>s \<in> set cands. ?r2 s" using find_Some_set by fastforce
      then show ?thesis
        using Some n1 no1 by (simp add: code best_fallback_source_spec_def cands_def [symmetric])
    next
      case n2: None
      then have no2: "\<not> (\<exists>s \<in> set cands. ?r2 s)" by (simp add: find_None_set)
      show ?thesis
        using n1 n2 no1 no2
        by (simp add: code best_fallback_source_spec_def cands_def [symmetric]
              split: option.splits)
    qed
  qed
  have never: "best_fallback_source ss \<noteq> Some HEADSET_SOURCE"
    using best_fallback_source_Some [of ss HEADSET_SOURCE] by blast
  have nomon: "\<forall>n. best_fallback_source ss = Some n \<longrightarrow>
         (\<exists>s \<in> set ss. src_name s = n \<and> source_type s \<noteq> ''monitor'')"
    using best_fallback_source_Some [of ss] by blast
  have parsed: "\<forall>n. get_best_fallback_source out = Some n \<longrightarrow>
         n \<noteq> HEADSET_SOURCE \<and> classify_source n \<noteq> ''monitor''"
  proof (intro allI impI)
    fix n
    assume "get_best_fallback_source out = Some n"
    then obtain s where s: "s \<in> set (get_sources out)" "src_name s = n" "n \<noteq> HEADSET_SOURCE"
        "source_type s \<noteq> ''monitor''"
      using best_fallback_source_Some [of "get_sources out" n]
      unfolding get_best_fallback_source_def by blast
    moreover have "source_type s = classify_source (src_name s)"
      using get_sources_classified s(1) by blast
    ultimately show "n \<noteq> HEADSET_SOURCE \<and> classify_source n \<noteq> ''monitor''" by simp
  qed
  have none: "best_fallback_source ss = None \<longleftrightarrow>
        (\<forall>s \<in> set ss. src_name s = HEADSET_SOURCE \<or> source_type s = ''monitor''
            \<or> source_type s = ''usb'')"
  proof -
    have "best_fallback_source ss = None \<longleftrightarrow>
        List.find ?r1 cands = None \<and> List.find ?r2 cands = None \<and> List.find ?r3 cands = None"
      unfolding code by (simp split: option.splits)
    also have "\<dots> \<longleftrightarrow> (\<forall>s \<in> set cands. \<not> ?r1 s \<and> \<not> ?r2 s \<and> \<not> ?r3 s)"
      unfolding find_None_set by blast
    also have "\<dots> \<longleftrightarrow> (\<forall>s \<in> set ss. src_name s = HEADSET_SOURCE \<or> source_type s = ''monitor''
            \<or> source_type s = ''usb'')"
      unfolding cands_def by auto
    finally show ?thesis .
  qed
  show ?thesis using refine never nomon none parsed by blast
qed

text \<open>
  A monitor source, the headset's own source, an external and an internal microphone:
  the internal microphone is chosen.
\<close>

theorem best_fallback_source_priority_witness:
  "best_fallback_source
     [\<lparr>src_name = ''alsa_output.pci.analog-stereo.monitor'', source_type = ''monitor''\<rparr>,
      \<lparr>src_name = HEADSET_SOURCE, source_type = ''usb''\<rparr>,
      \<lparr>src_name = ''alsa_input.pci.HiFi__Mic2__source'', source_type = ''external_mic''\<rparr>,
      \<lparr>src_name = ''alsa_input.pci.HiFi__Mic1__source'', source_type = ''internal_mic''\<rparr>]
     = Some ''alsa_input.pci.HiFi__Mic1__source''
   \<and> best_fallback_source_spec
     [\<lparr>src_name = ''alsa_output.pci.analog-stereo.monitor'', source_type = ''monitor''\<rparr>,
      \<lparr>src_name = HEADSET_SOURCE, source_type = ''usb''\<rparr>,
      \<lparr>src_name = ''alsa_input.pci.HiFi__Mic2__source'', source_type = ''external_mic''\<rparr>,
      \<lparr>src_name = ''alsa_input.pci.HiFi__Mic1__source'', source_type = ''internal_mic''\<rparr>]
     HEADSET_SOURCE = Some ''alsa_input.pci.HiFi__Mic1__source''"
proof -
  let ?xs = "[\<lparr>src_name = ''alsa_output.pci.analog-stereo.monitor'', source_type = ''monitor''\<rparr>,
      \<lparr>src_name = HEADSET_SOURCE, source_type = ''usb''\<rparr>,
      \<lparr>src_name = ''alsa_input.pci.HiFi__Mic2__source'', source_type = ''external_mic''\<rparr>,
      \<lparr>src_name = ''alsa_input.pci.HiFi__Mic1__source'', source_type = ''internal_mic''\<rparr>]"
  have a: "best_fallback_source ?xs = Some ''alsa_input.pci.HiFi__Mic1__source''"
    by (simp add: best_fallback_source_def HEADSET_SOURCE_def)
  have "best_fallback_source ?xs = best_fallback_source_spec ?xs HEADSET_SOURCE"
    using best_fallback_source_priority [of ?xs "[]"] by (rule conjunct1)
  with a show ?thesis by simp
qed

section \<open>Names of parsed endpoints\<close>

text \<open>
  Every sink the parser emits has a non-empty name and is classified by that name, so the
  test \<^verbatim>\<open>if fallback_sink:\<close> of the controller fails only for \<^verbatim>\<open>None\<close>; the same holds for
  sources.
\<close>

lemma save_current_sink_nonempty:
  "\<forall>s \<in> set (sinks st). name s \<noteq> [] \<and> sink_type s = classify_sink (name s) \<Longrightarrow>
   \<forall>s \<in> set (save_current_sink st). name s \<noteq> [] \<and> sink_type s = classify_sink (name s)"
  by (auto simp: save_current_sink_def Let_def split: option.splits)

lemma sink_line_sinks:
  "sinks (sink_line st l) = (if startswith (strip l) ''Sink #'' then save_current_sink st else sinks st)"
  by (simp add: sink_line_def Let_def split: option.splits)

lemma sink_line_nonempty:
  "\<forall>s \<in> set (sinks st). name s \<noteq> [] \<and> sink_type s = classify_sink (name s) \<Longrightarrow>
   \<forall>s \<in> set (sinks (sink_line st l)). name s \<noteq> [] \<and> sink_type s = classify_sink (name s)"
  using save_current_sink_nonempty [of st] unfolding sink_line_sinks by presburger

lemma foldl_sink_line_nonempty:
  "\<forall>s \<in> set (sinks st). name s \<noteq> [] \<and> sink_type s = classify_sink (name s) \<Longrightarrow>
   \<forall>s \<in> set (sinks (foldl sink_line st ls)). name s \<noteq> [] \<and> sink_type s = classify_sink (name s)"
proof (induction ls arbitrary: st)
  case Nil
  then show ?case by simp
next
  case (Cons l ls)
  show ?case
    unfolding foldl_Cons by (rule Cons.IH) (rule sink_line_nonempty [OF Cons.prems])
qed

lemma parse_sink_lines_nonempty:
  "\<forall>s \<in> set (parse_sink_lines ls). name s \<noteq> [] \<and> sink_type s = classify_sink (name s)"
  unfolding parse_sink_lines_def
  by (rule save_current_sink_nonempty, rule foldl_sink_line_nonempty)
     (simp add: sink_parser_init_def)

lemma best_fallback_sink_Some:
  assumes "best_fallback_sink ss = Some n"
  shows "\<exists>s \<in> set ss. name s = n \<and> n \<noteq> HEADSET_SINK"
proof -
  define cands where "cands = filter (\<lambda>s. name s \<noteq> HEADSET_SINK) ss"
  have "\<exists>p s. List.find p cands = Some s \<and> name s = n"
    using assms unfolding best_fallback_sink_def cands_def first_match_find Let_def
    by (auto split: option.splits)
  then obtain p s where "List.find p cands = Some s" "name s = n" by blast
  then have "s \<in> set cands" "name s = n" using find_Some_set by fastforce+
  then show ?thesis by (auto simp: cands_def)
qed

lemma truthy_get_best_fallback_sink:
  "truthy (get_best_fallback_sink out) \<longleftrightarrow> get_best_fallback_sink out \<noteq> None"
proof (cases "get_best_fallback_sink out")
  case None
  then show ?thesis by (simp add: truthy_def)
next
  case (Some n)
  then obtain s where "s \<in> set (get_sinks_with_port_availability out)" "name s = n"
    using best_fallback_sink_Some unfolding get_best_fallback_sink_def by blast
  then have "n \<noteq> []"
    using parse_sink_lines_nonempty unfolding get_sinks_with_port_availability_def by blast
  then show ?thesis using Some by (simp add: truthy_def)
qed

lemma truthy_get_best_fallback_source:
  "truthy (get_best_fallback_source out) \<longleftrightarrow> get_best_fallback_source out \<noteq> None"
proof (cases "get_best_fallback_source out")
  case None
  then show ?thesis by (simp add: truthy_def)
next
  case (Some n)
  then obtain s where "s \<in> set (get_sources out)" "src_name s = n"
    using best_fallback_source_Some unfolding get_best_fallback_source_def by blast
  then have "n \<noteq> []"
    using get_sources_classified by blast
  then show ?thesis using Some by (simp add: truthy_def)
qed

section \<open>Properties of the routing controller\<close>

text \<open>
  \<open>switch_to_fallback\<close> in closed form: both fallbacks are computed afresh, each one that
  exists is asserted, and the memory records exactly the two results.
\<close>

lemma switch_to_fallback_eq:
  "switch_to_fallback w st =
     (st\<lparr>last_fallback_sink := get_best_fallback_sink (pactl_sinks w),
         last_fallback_source := get_best_fallback_source (pactl_sources w)\<rparr>,
      [PactlListSinks] @ sink_call (get_best_fallback_sink (pactl_sinks w))
      @ [PactlListSources] @ source_call (get_best_fallback_source (pactl_sources w)))"
proof -
  have "truthy (get_best_fallback_sink (pactl_sinks w)) =
          (get_best_fallback_sink (pactl_sinks w) \<noteq> None)"
       "truthy (get_best_fallback_source (pactl_sources w)) =
          (get_best_fallback_source (pactl_sources w) \<noteq> None)"
    by (rule truthy_get_best_fallback_sink, rule truthy_get_best_fallback_source)
  then show ?thesis
    by (cases "get_best_fallback_sink (pactl_sinks w)";
        cases "get_best_fallback_source (pactl_sources w)")
       (simp_all add: switch_to_fallback_def Let_def sink_call_def source_call_def)
qed

lemma connect_step_linked: "device st \<noteq> None \<Longrightarrow> connect_step w st = (st, [])"
  by (cases "device st") (simp_all add: connect_step_def)

lemma main_iteration_linked:
  "device st \<noteq> None \<Longrightarrow> main_iteration w st = poll_step w st"
  by (cases "device st") (simp_all add: main_iteration_def connect_step_linked split: prod.splits)


text \<open>
  Claim C9. When a successful poll returns a status that differs from the last one and is
  neither on nor docked, the tick makes no routing call and no query: its only event is
  the sleep of one second, the fallback memory is unchanged, the last status is updated and
  the poll counter is reset to zero.
\<close>

theorem powered_off_undocked_no_routing:
  "Some s \<noteq> last_status st \<and> \<not> is_on s \<and> \<not> is_docked s \<and> device_status w = Inr s \<longrightarrow>
     poll_step w st = (st\<lparr>last_status := Some s, poll_counter := 0\<rparr>, [Sleep 1])
     \<and> (device st \<noteq> None \<longrightarrow>
          main_iteration w st = (st\<lparr>last_status := Some s, poll_counter := 0\<rparr>, [Sleep 1]))"
  by (auto simp: main_iteration_linked poll_step_def status_step_def Let_def)

text \<open>The fallbacks of the example outputs.\<close>

lemma example_fallback_sink:
  "get_best_fallback_sink example_pactl_sinks = Some ''alsa_output.pci.analog-stereo''"
  by code_simp

lemma example_fallback_source:
  "get_best_fallback_source example_pactl_sources = Some ''alsa_input.pci.HiFi__Mic1__source''"
  by code_simp



text \<open>The headset is switched off while off the dock, after it was active.\<close>

theorem powered_off_undocked_no_routing_witness:
  "main_iteration (world_with_status status_off) controller_active =
     (\<lparr>device = Some DeviceHandle, last_status = Some status_off, last_fallback_sink = None,
       last_fallback_source = None, backoff_seconds = 2, poll_counter = 0\<rparr>,
      [Sleep 1])"
  using powered_off_undocked_no_routing
          [of status_off controller_active "world_with_status status_off"]
  by (simp add: controller_active_def world_with_status_def status_off_def status_active_def)

lemma poll_step_backoff: "backoff_seconds (fst (poll_step w st)) = backoff_seconds st"
  by (simp add: poll_step_def status_step_def periodic_check_def switch_to_fallback_eq Let_def
        split: sum.splits prod.splits)

lemma connect_step_success:
  assumes "device st = None" "fst (try_connect_device w) \<noteq> None"
  shows "connect_step w st =
           (st\<lparr>device := Some DeviceHandle, backoff_seconds := 2, last_status := None\<rparr>, [])"
proof -
  have "try_connect_device w = (Some DeviceHandle, [])"
    using assms(2)
    by (simp add: try_connect_device_def split: option.splits link_error.splits)
  then show ?thesis using assms(1) by (simp add: connect_step_def)
qed

lemma connect_step_failure:
  assumes "device st = None" "fst (try_connect_device w) = None"
  shows "connect_step w st =
           (st\<lparr>backoff_seconds := min (backoff_seconds st * 2) max_backoff\<rparr>,
            snd (try_connect_device w) @ [Sleep (backoff_seconds st)])"
  using assms by (cases "try_connect_device w") (simp add: connect_step_def)

text \<open>
  Claim C3, as amended. A successful connect while in NoLink opens the link without any
  event, resets the backoff to its floor of 2 and clears the last status; the two fallback
  names and the poll counter keep the values they had. The iteration then goes on with the
  poll, and when that poll succeeds the tick ends with the status it returned as last status
  and the poll counter at zero.
\<close>

theorem reconnect_resets_backoff_and_status:
  "device st = None \<and> fst (try_connect_device w) \<noteq> None \<longrightarrow>
     connect_step w st =
       (st\<lparr>device := Some DeviceHandle, backoff_seconds := 2, last_status := None\<rparr>, [])
     \<and> main_iteration w st =
         poll_step w (st\<lparr>device := Some DeviceHandle, backoff_seconds := 2, last_status := None\<rparr>)
     \<and> backoff_seconds (fst (main_iteration w st)) = 2
     \<and> (\<forall>s. device_status w = Inr s \<longrightarrow>
           device (fst (main_iteration w st)) = Some DeviceHandle
           \<and> last_status (fst (main_iteration w st)) = Some s
           \<and> poll_counter (fst (main_iteration w st)) = 0)"
proof (intro impI, elim conjE)
  assume nolink: "device st = None" and ok: "fst (try_connect_device w) \<noteq> None"
  let ?st1 = "st\<lparr>device := Some DeviceHandle, backoff_seconds := 2, last_status := None\<rparr>"
  have c: "connect_step w st = (?st1, [])"
    by (rule connect_step_success [OF nolink ok])
  have m: "main_iteration w st = poll_step w ?st1"
    by (simp add: main_iteration_def c split: prod.splits)
  have b: "backoff_seconds (fst (main_iteration w st)) = 2"
    unfolding m poll_step_backoff by simp
  have p: "\<forall>s. device_status w = Inr s \<longrightarrow>
           device (fst (main_iteration w st)) = Some DeviceHandle
           \<and> last_status (fst (main_iteration w st)) = Some s
           \<and> poll_counter (fst (main_iteration w st)) = 0"
    unfolding m
    by (simp add: poll_step_def status_step_def switch_to_fallback_eq Let_def
          split: prod.splits)
  show "connect_step w st = (?st1, [])
     \<and> main_iteration w st = poll_step w ?st1
     \<and> backoff_seconds (fst (main_iteration w st)) = 2
     \<and> (\<forall>s. device_status w = Inr s \<longrightarrow>
           device (fst (main_iteration w st)) = Some DeviceHandle
           \<and> last_status (fst (main_iteration w st)) = Some s
           \<and> poll_counter (fst (main_iteration w st)) = 0)"
    using c m b p by blast
qed

text \<open>
  A run from the initial state: the dock is found with the headset docked, the same status
  is seen again, then the dock is unplugged. The state after these three ticks:
\<close>

lemma example_run_unplugged:
  "main_run [world_with_status status_docked, world_with_status status_docked, world_unplugged]
     controller_init =
     (\<lparr>device = None, last_status = None,
       last_fallback_sink = Some ''alsa_output.pci.analog-stereo'',
       last_fallback_source = Some ''alsa_input.pci.HiFi__Mic1__source'',
       backoff_seconds = 2, poll_counter = 1\<rparr>,
      [PactlListSinks, SetDefaultSink ''alsa_output.pci.analog-stereo'',
       PactlListSources, SetDefaultSource ''alsa_input.pci.HiFi__Mic1__source'', Sleep 1,
       Sleep 1,
       DeviceClose, PactlListSinks, SetDefaultSink ''alsa_output.pci.analog-stereo'',
       PactlListSources, SetDefaultSource ''alsa_input.pci.HiFi__Mic1__source'', Sleep 2])"
  by (simp add: main_iteration_def connect_step_def try_connect_device_def poll_step_def
        status_step_def switch_to_fallback_eq controller_init_def world_with_status_def
        world_unplugged_def status_docked_def example_fallback_sink example_fallback_source
        sink_call_def source_call_def fallback_check_interval_def)

text \<open>The reconnect after that run, with the headset off and undocked.\<close>

theorem reconnect_resets_backoff_and_status_witness:
  "connect_step (world_with_status status_off)
     \<lparr>device = None, last_status = None,
      last_fallback_sink = Some ''alsa_output.pci.analog-stereo'',
      last_fallback_source = Some ''alsa_input.pci.HiFi__Mic1__source'',
      backoff_seconds = 16, poll_counter = 1\<rparr> =
     (\<lparr>device = Some DeviceHandle, last_status = None,
       last_fallback_sink = Some ''alsa_output.pci.analog-stereo'',
       last_fallback_source = Some ''alsa_input.pci.HiFi__Mic1__source'',
       backoff_seconds = 2, poll_counter = 1\<rparr>, [])"
  using reconnect_resets_backoff_and_status
     [of "\<lparr>device = None, last_status = None,
      last_fallback_sink = Some ''alsa_output.pci.analog-stereo'',
      last_fallback_source = Some ''alsa_input.pci.HiFi__Mic1__source'',
      backoff_seconds = 16, poll_counter = 1\<rparr>" "world_with_status status_off"]
  by (simp add: try_connect_device_def world_with_status_def)

text \<open>
  Claim C3 as stated fails: after the run above the controller is in NoLink, and the
  successful connect that follows leaves the fallback names and the poll counter at values
  that are not the initial ones; at the end of that tick the last status is not the
  initial one either.
\<close>

theorem reconnect_keeps_memory_counterexample:
  "device (fst (main_run [world_with_status status_docked, world_with_status status_docked,
                          world_unplugged] controller_init)) = None
   \<and> connect_step (world_with_status status_off)
       (fst (main_run [world_with_status status_docked, world_with_status status_docked,
                       world_unplugged] controller_init)) =
       (\<lparr>device = Some DeviceHandle, last_status = None,
         last_fallback_sink = Some ''alsa_output.pci.analog-stereo'',
         last_fallback_source = Some ''alsa_input.pci.HiFi__Mic1__source'',
         backoff_seconds = 2, poll_counter = 1\<rparr>, [])
   \<and> fst (main_iteration (world_with_status status_off)
       (fst (main_run [world_with_status status_docked, world_with_status status_docked,
                       world_unplugged] controller_init))) =
       \<lparr>device = Some DeviceHandle, last_status = Some status_off,
        last_fallback_sink = Some ''alsa_output.pci.analog-stereo'',
        last_fallback_source = Some ''alsa_input.pci.HiFi__Mic1__source'',
        backoff_seconds = 2, poll_counter = 0\<rparr>
   \<and> last_fallback_sink controller_init = None
   \<and> last_fallback_source controller_init = None
   \<and> last_status controller_init = None
   \<and> poll_counter controller_init = 0"
  unfolding example_run_unplugged
  by (simp add: main_iteration_def connect_step_def try_connect_device_def poll_step_def
        status_step_def world_with_status_def status_off_def controller_init_def)

text \<open>
  Claim C6. From a state with an open link whose last status is not \<open>s\<close> (for instance
  an active one), two polls that return the same docked status \<open>s\<close> and a third that
  returns an active status: the first tick computes and asserts the fallbacks, the second
  tick does nothing but raise the counter to 1 and sleep, whatever the audio system reports
  meanwhile, and the third tick asserts the headset's own sink and source. More generally a
  tick with an unchanged status and a counter that stays below the threshold makes no call.
\<close>

theorem docked_twice_routes_once:
  "device st \<noteq> None \<and> last_status st \<noteq> Some s \<and> is_docked s
   \<and> device_status w1 = Inr s \<and> device_status w2 = Inr s
   \<and> is_on a \<and> \<not> is_docked a \<and> device_status w3 = Inr a \<longrightarrow>
     main_iteration w1 st =
       (st\<lparr>last_status := Some s, poll_counter := 0,
           last_fallback_sink := get_best_fallback_sink (pactl_sinks w1),
           last_fallback_source := get_best_fallback_source (pactl_sources w1)\<rparr>,
        [PactlListSinks] @ sink_call (get_best_fallback_sink (pactl_sinks w1))
        @ [PactlListSources] @ source_call (get_best_fallback_source (pactl_sources w1))
        @ [Sleep 1])
     \<and> main_iteration w2 (fst (main_iteration w1 st)) =
       (st\<lparr>last_status := Some s, poll_counter := 1,
           last_fallback_sink := get_best_fallback_sink (pactl_sinks w1),
           last_fallback_source := get_best_fallback_source (pactl_sources w1)\<rparr>,
        [Sleep 1])
     \<and> main_run [w1, w2, w3] st =
       (st\<lparr>last_status := Some a, poll_counter := 0,
           last_fallback_sink := None, last_fallback_source := None\<rparr>,
        [PactlListSinks] @ sink_call (get_best_fallback_sink (pactl_sinks w1))
        @ [PactlListSources] @ source_call (get_best_fallback_source (pactl_sources w1))
        @ [Sleep 1, Sleep 1, SetDefaultSink HEADSET_SINK, SetDefaultSource HEADSET_SOURCE,
           Sleep 1])
     \<and> (\<forall>st' w'. device st' \<noteq> None \<and> device_status w' = Inr s
            \<and> last_status st' = Some s \<and> poll_counter st' + 1 < fallback_check_interval \<longrightarrow>
          main_iteration w' st' = (st'\<lparr>poll_counter := poll_counter st' + 1\<rparr>, [Sleep 1]))"
proof (intro impI, elim conjE)
  assume linked: "device st \<noteq> None" and changed: "last_status st \<noteq> Some s"
    and docked: "is_docked s"
    and p1: "device_status w1 = Inr s" and p2: "device_status w2 = Inr s"
    and act: "is_on a" "\<not> is_docked a" and p3: "device_status w3 = Inr a"
  let ?fs = "get_best_fallback_sink (pactl_sinks w1)"
  let ?fsrc = "get_best_fallback_source (pactl_sources w1)"
  let ?st1 = "st\<lparr>last_status := Some s, poll_counter := 0,
           last_fallback_sink := ?fs, last_fallback_source := ?fsrc\<rparr>"
  let ?ev1 = "[PactlListSinks] @ sink_call ?fs @ [PactlListSources] @ source_call ?fsrc @ [Sleep 1]"
  let ?st2 = "st\<lparr>last_status := Some s, poll_counter := 1,
           last_fallback_sink := ?fs, last_fallback_source := ?fsrc\<rparr>"
  let ?st3 = "st\<lparr>last_status := Some a, poll_counter := 0,
           last_fallback_sink := None, last_fallback_source := None\<rparr>"
  have ne: "Some s \<noteq> last_status st" using changed by auto
  have t1: "main_iteration w1 st = (?st1, ?ev1)"
    using linked ne docked p1
    by (simp add: main_iteration_linked poll_step_def status_step_def switch_to_fallback_eq
          Let_def)
  have l1: "device ?st1 \<noteq> None" using linked by simp
  have t2: "main_iteration w2 ?st1 = (?st2, [Sleep 1])"
    using l1 docked p2
    by (simp add: main_iteration_linked poll_step_def status_step_def Let_def
          fallback_check_interval_def)
  have l2: "device ?st2 \<noteq> None" using linked by simp
  have sa: "s \<noteq> a" using docked act by auto
  have t3: "main_iteration w3 ?st2 =
      (?st3, [SetDefaultSink HEADSET_SINK, SetDefaultSource HEADSET_SOURCE, Sleep 1])"
    using l2 act p3 sa
    by (simp add: main_iteration_linked poll_step_def status_step_def Let_def)
  have run: "main_run [w1, w2, w3] st =
      (?st3, ?ev1 @ [Sleep 1] @ [SetDefaultSink HEADSET_SINK, SetDefaultSource HEADSET_SOURCE, Sleep 1])"
    by (simp add: t1 t2 t3)
  have gen: "\<forall>st' w'. device st' \<noteq> None \<and> device_status w' = Inr s
            \<and> last_status st' = Some s \<and> poll_counter st' + 1 < fallback_check_interval \<longrightarrow>
          main_iteration w' st' = (st'\<lparr>poll_counter := poll_counter st' + 1\<rparr>, [Sleep 1])"
    by (simp add: main_iteration_linked poll_step_def status_step_def Let_def)
  show "main_iteration w1 st = (?st1, ?ev1)
     \<and> main_iteration w2 (fst (main_iteration w1 st)) = (?st2, [Sleep 1])
     \<and> main_run [w1, w2, w3] st =
       (?st3, [PactlListSinks] @ sink_call ?fs @ [PactlListSources] @ source_call ?fsrc
        @ [Sleep 1, Sleep 1, SetDefaultSink HEADSET_SINK, SetDefaultSource HEADSET_SOURCE,
           Sleep 1])
     \<and> (\<forall>st' w'. device st' \<noteq> None \<and> device_status w' = Inr s
            \<and> last_status st' = Some s \<and> poll_counter st' + 1 < fallback_check_interval \<longrightarrow>
          main_iteration w' st' = (st'\<lparr>poll_counter := poll_counter st' + 1\<rparr>, [Sleep 1]))"
    using t1 t2 run gen by simp
qed

text \<open>The headset, active before, is docked, seen docked again, and taken up again.\<close>

theorem docked_twice_routes_once_witness:
  "main_run [world_with_status status_docked, world_with_status status_docked,
             world_with_status status_active] controller_active =
     (\<lparr>device = Some DeviceHandle, last_status = Some status_active, last_fallback_sink = None,
       last_fallback_source = None, backoff_seconds = 2, poll_counter = 0\<rparr>,
      [PactlListSinks, SetDefaultSink ''alsa_output.pci.analog-stereo'',
       PactlListSources, SetDefaultSource ''alsa_input.pci.HiFi__Mic1__source'',
       Sleep 1, Sleep 1, SetDefaultSink HEADSET_SINK, SetDefaultSource HEADSET_SOURCE, Sleep 1])
   \<and> main_iteration (world_with_status status_docked)
        (fst (main_iteration (world_with_status status_docked) controller_active)) =
     (\<lparr>device = Some DeviceHandle, last_status = Some status_docked,
       last_fallback_sink = Some ''alsa_output.pci.analog-stereo'',
       last_fallback_source = Some ''alsa_input.pci.HiFi__Mic1__source'',
       backoff_seconds = 2, poll_counter = 1\<rparr>,
      [Sleep 1])"
  using docked_twice_routes_once
     [of controller_active status_docked "world_with_status status_docked"
         "world_with_status status_docked" status_active "world_with_status status_active"]
  by (simp del: main_run.simps cong: conj_cong
        add: controller_active_def world_with_status_def status_docked_def
        status_active_def example_fallback_sink example_fallback_source sink_call_def
        source_call_def)

lemma connect_step_backoff_bounds:
  assumes "2 \<le> backoff_seconds st" "backoff_seconds st \<le> max_backoff"
  shows "2 \<le> backoff_seconds (fst (connect_step w st))
         \<and> backoff_seconds (fst (connect_step w st)) \<le> max_backoff"
  using assms
  by (cases "try_connect_device w"; cases "fst (try_connect_device w)")
     (auto simp: connect_step_def max_backoff_def)

lemma main_iteration_backoff:
  "backoff_seconds (fst (main_iteration w st)) = backoff_seconds (fst (connect_step w st))"
proof (cases "connect_step w st")
  case (Pair st1 ev1)
  show ?thesis
  proof (cases "poll_step w st1")
    case p: (Pair st2 ev2)
    have "backoff_seconds st2 = backoff_seconds st1"
      using poll_step_backoff [of w st1] by (simp add: p)
    then show ?thesis by (simp add: main_iteration_def Pair p)
  qed
qed

lemma main_run_backoff_bounds:
  "2 \<le> backoff_seconds st \<Longrightarrow> backoff_seconds st \<le> max_backoff \<Longrightarrow>
   2 \<le> backoff_seconds (fst (main_run ws st))
   \<and> backoff_seconds (fst (main_run ws st)) \<le> max_backoff"
proof (induction ws arbitrary: st)
  case Nil
  then show ?case by simp
next
  case (Cons w ws)
  have step: "2 \<le> backoff_seconds (fst (main_iteration w st))
              \<and> backoff_seconds (fst (main_iteration w st)) \<le> max_backoff"
    unfolding main_iteration_backoff
    by (rule connect_step_backoff_bounds [OF Cons.prems])
  have "fst (main_run (w # ws) st) = fst (main_run ws (fst (main_iteration w st)))"
    by (simp split: prod.splits)
  then show ?case using Cons.IH step by simp
qed

text \<open>
  Claim C7. In every state the loop reaches from the initial one, the backoff lies between
  its floor 2 and its ceiling 30. A failed connect attempt sleeps the current backoff and
  replaces it by its double capped at 30, which is never smaller than before; a successful
  connect resets it to 2, and the poll of the same tick does not change it.
\<close>

theorem backoff_monotone_capped_reset:
  "2 \<le> backoff_seconds (fst (main_run ws controller_init))
   \<and> backoff_seconds (fst (main_run ws controller_init)) \<le> max_backoff
   \<and> max_backoff = 30
   \<and> (device (fst (main_run ws controller_init)) = None \<and> fst (try_connect_device w) = None \<longrightarrow>
        main_iteration w (fst (main_run ws controller_init)) =
          ((fst (main_run ws controller_init))
             \<lparr>backoff_seconds :=
                min (backoff_seconds (fst (main_run ws controller_init)) * 2) max_backoff\<rparr>,
           snd (try_connect_device w)
           @ [Sleep (backoff_seconds (fst (main_run ws controller_init)))])
        \<and> backoff_seconds (fst (main_run ws controller_init))
            \<le> backoff_seconds (fst (main_iteration w (fst (main_run ws controller_init)))))
   \<and> (device (fst (main_run ws controller_init)) = None \<and> fst (try_connect_device w) \<noteq> None \<longrightarrow>
        backoff_seconds (fst (main_iteration w (fst (main_run ws controller_init)))) = 2)"
proof -
  define st where "st = fst (main_run ws controller_init)"
  have bounds: "2 \<le> backoff_seconds st \<and> backoff_seconds st \<le> max_backoff"
    unfolding st_def
    by (rule main_run_backoff_bounds) (simp_all add: controller_init_def max_backoff_def)
  have fail: "main_iteration w st =
          (st\<lparr>backoff_seconds := min (backoff_seconds st * 2) max_backoff\<rparr>,
           snd (try_connect_device w) @ [Sleep (backoff_seconds st)])
        \<and> backoff_seconds st \<le> backoff_seconds (fst (main_iteration w st))"
    if "device st = None" "fst (try_connect_device w) = None"
  proof -
    have c: "connect_step w st =
          (st\<lparr>backoff_seconds := min (backoff_seconds st * 2) max_backoff\<rparr>,
           snd (try_connect_device w) @ [Sleep (backoff_seconds st)])"
      by (rule connect_step_failure [OF that])
    have m: "main_iteration w st =
          (st\<lparr>backoff_seconds := min (backoff_seconds st * 2) max_backoff\<rparr>,
           snd (try_connect_device w) @ [Sleep (backoff_seconds st)])"
      using that(1) by (simp add: main_iteration_def c)
    show ?thesis using bounds by (simp add: m)
  qed
  have ok: "backoff_seconds (fst (main_iteration w st)) = 2"
    if "device st = None" "fst (try_connect_device w) \<noteq> None"
    unfolding main_iteration_backoff connect_step_success [OF that] by simp
  show ?thesis
    unfolding st_def [symmetric] using bounds fail ok by (simp add: max_backoff_def)
qed

text \<open>
  Five failed attempts from the start sleep 2, 4, 8, 16 and 30 seconds and leave the
  backoff at 30; the sixth attempt leaves it there.
\<close>

theorem backoff_monotone_capped_reset_witness:
  "main_run [world_unplugged, world_unplugged, world_unplugged, world_unplugged, world_unplugged]
     controller_init =
     (controller_init\<lparr>backoff_seconds := 30\<rparr>, [Sleep 2, Sleep 4, Sleep 8, Sleep 16, Sleep 30])
   \<and> main_iteration world_unplugged
       (fst (main_run [world_unplugged, world_unplugged, world_unplugged, world_unplugged,
                       world_unplugged] controller_init)) =
     (controller_init\<lparr>backoff_seconds := 30\<rparr>, [Sleep 30])"
proof -
  let ?ws = "[world_unplugged, world_unplugged, world_unplugged, world_unplugged, world_unplugged]"
  have run: "main_run ?ws controller_init =
     (controller_init\<lparr>backoff_seconds := 30\<rparr>, [Sleep 2, Sleep 4, Sleep 8, Sleep 16, Sleep 30])"
    by (simp add: main_iteration_def connect_step_def try_connect_device_def
          controller_init_def world_unplugged_def max_backoff_def)
  have "main_iteration world_unplugged (fst (main_run ?ws controller_init)) =
     (controller_init\<lparr>backoff_seconds := 30\<rparr>, [Sleep 30])"
    using backoff_monotone_capped_reset [of ?ws world_unplugged]
    unfolding run
    by (simp add: try_connect_device_def controller_init_def world_unplugged_def max_backoff_def)
  with run show ?thesis by simp
qed

















end
